theory Spec2Isabelle
  imports Complex_Main
begin

section \<open>Force-plate key-point analysis (utils/data_processor.py)\<close>

text \<open>
  The theory embeds \<^verbatim>\<open>find_balance_point\<close> and \<^verbatim>\<open>process_force_data\<close> of
  \<^verbatim>\<open>src/utils/data_processor.py\<close>. The functions work on a pandas DataFrame as
  \<^verbatim>\<open>pd.read_csv\<close> builds it in \<^verbatim>\<open>app.py\<close>: named columns of equal length
  over the default index, whose labels are the positions 0, 1, ..., N-1.

  A column is numeric, of dtype float64 or int64 as \<^verbatim>\<open>pd.read_csv\<close> infers it. Cell
  values are modelled as real numbers and the columns hold no NaN. Arithmetic on
  float64 values is idealised as exact; the subtraction of two int64 cells wraps around
  modulo \<open>2^64\<close>, as numpy does it. The one NaN the code can produce by itself, the
  standard deviation of fewer than two values, is modelled as \<open>None\<close>. The window size
  is a count of samples and B's index is a position, so both are natural numbers; index
  labels that the code computes by subtraction are integers.
\<close>

subsection \<open>Errors and the DataFrame\<close>

text \<open>
  The exceptions of Python that the two functions can raise. \<open>NotScalar\<close> stands for a
  lookup by a column name that the frame carries more than once: pandas then hands
  back a DataFrame or a Series where the code expects one column or one number, and
  \<^verbatim>\<open>find_balance_point\<close> raises ValueError at the test of line 47 or returns a
  dictionary whose entries are not numbers.
\<close>

datatype error = KeyError | IndexError | ValueError | TypeError | NotScalar

text \<open>Sequencing of calls that may raise: the first exception ends the computation.\<close>

definition bnd :: "error + 'a \<Rightarrow> ('a \<Rightarrow> error + 'b) \<Rightarrow> error + 'b" where
  "bnd m f = (case m of Inl e \<Rightarrow> Inl e | Inr x \<Rightarrow> f x)"

text \<open>A DataFrame is the list of its columns, each a name with its dtype and its
  values. pandas allows a name to occur more than once, and the renaming of the two
  selected columns in \<^verbatim>\<open>app.py\<close> can produce a second \<^verbatim>\<open>'time'\<close> or
  \<^verbatim>\<open>'force'\<close>.\<close>

datatype dtype = Float64 | Int64

type_synonym dataframe = "(string \<times> dtype \<times> real list) list"

definition columns :: "dataframe \<Rightarrow> string list" where
  "columns df = map fst df"

text \<open>\<^verbatim>\<open>len(df)\<close>: the number of rows.\<close>

definition len_df :: "dataframe \<Rightarrow> nat" where
  "len_df df = (case df of [] \<Rightarrow> 0 | (c, d, xs) # rest \<Rightarrow> length xs)"

text \<open>The values an int64 cell can hold.\<close>

definition int64_value :: "real \<Rightarrow> bool" where
  "int64_value x = (of_int \<lfloor>x\<rfloor> = x \<and> - (2 ^ 63) \<le> x \<and> x < 2 ^ 63)"

text \<open>Every column of a DataFrame has one value per row, and an int64 column holds
  64-bit integers. Nothing is required of the names.\<close>

definition wf_df :: "dataframe \<Rightarrow> bool" where
  "wf_df df =
     list_all (\<lambda>(c, d, xs). length xs = len_df df
        \<and> (case d of Float64 \<Rightarrow> True | Int64 \<Rightarrow> list_all int64_value xs)) df"

text \<open>The columns that carry the name \<open>c\<close>.\<close>

definition selection :: "dataframe \<Rightarrow> string \<Rightarrow> dataframe" where
  "selection df c = filter (\<lambda>(n, d, xs). n = c) df"

definition repeated :: "dataframe \<Rightarrow> string \<Rightarrow> bool" where
  "repeated df c = (1 < length (selection df c))"

text \<open>\<^verbatim>\<open>df[c]\<close> as a single column: KeyError when no column has the name \<open>c\<close>, and
  no single column when several have it.\<close>

definition col :: "dataframe \<Rightarrow> string \<Rightarrow> error + real list" where
  "col df c =
     (case selection df c of
        [] \<Rightarrow> Inl KeyError
      | [(n, d, xs)] \<Rightarrow> Inr xs
      | _ \<Rightarrow> Inl NotScalar)"

text \<open>The dtype of the column named \<open>c\<close>; used only where the column exists.\<close>

definition dtype_of :: "dataframe \<Rightarrow> string \<Rightarrow> dtype" where
  "dtype_of df c = (case selection df c of [] \<Rightarrow> Float64 | (n, d, xs) # rest \<Rightarrow> d)"

text \<open>The difference \<open>a - b\<close> of two cells of one column: exact for float64, and for
  int64 the 64-bit two's complement value of the difference.\<close>

definition wrap64 :: "int \<Rightarrow> int" where
  "wrap64 k = (k + 2 ^ 63) mod 2 ^ 64 - 2 ^ 63"

definition sub_cells :: "dtype \<Rightarrow> real \<Rightarrow> real \<Rightarrow> real" where
  "sub_cells d a b =
     (case d of Float64 \<Rightarrow> a - b | Int64 \<Rightarrow> of_int (wrap64 (\<lfloor>a\<rfloor> - \<lfloor>b\<rfloor>)))"

text \<open>\<^verbatim>\<open>df.index\<close>: the labels of the rows, and \<^verbatim>\<open>df.iloc[k:].index\<close>: the labels
  of the rows from position \<open>k\<close> on.\<close>

definition index :: "dataframe \<Rightarrow> nat list" where
  "index df = [0 ..< len_df df]"

definition iloc_from_index :: "dataframe \<Rightarrow> nat \<Rightarrow> nat list" where
  "iloc_from_index df k = drop k (index df)"

text \<open>\<^verbatim>\<open>idx[i]\<close> for a position \<open>i \<ge> 0\<close>, and \<^verbatim>\<open>idx[-1]\<close>; both raise IndexError
  out of range.\<close>

definition index_at :: "nat list \<Rightarrow> nat \<Rightarrow> error + nat" where
  "index_at idx i = (if i < length idx then Inr (idx ! i) else Inl IndexError)"

definition index_last :: "nat list \<Rightarrow> error + nat" where
  "index_last idx = (if idx = [] then Inl IndexError else Inr (last idx))"

text \<open>\<^verbatim>\<open>df.loc[l, c]\<close>: the cell of column \<open>c\<close> in the row labelled \<open>l\<close>; KeyError
  when the column or the label does not exist.\<close>

definition loc :: "dataframe \<Rightarrow> int \<Rightarrow> string \<Rightarrow> error + real" where
  "loc df l c =
     bnd (col df c) (\<lambda>xs.
       if 0 \<le> l \<and> nat l < length xs then Inr (xs ! nat l) else Inl KeyError)"

text \<open>The values of a list at the positions \<open>lo, ..., hi\<close>, both ends included, as far
  as they exist.\<close>

definition slice_closed :: "'a list \<Rightarrow> int \<Rightarrow> int \<Rightarrow> 'a list" where
  "slice_closed xs lo hi = take (nat (hi + 1) - nat lo) (drop (nat lo) xs)"

text \<open>\<^verbatim>\<open>df.loc[lo:hi, c]\<close>: a slice by label includes both ends, and on the sorted
  default index labels outside 0..N-1 select nothing.\<close>

definition loc_slice :: "dataframe \<Rightarrow> int \<Rightarrow> int \<Rightarrow> string \<Rightarrow> error + real list" where
  "loc_slice df lo hi c = bnd (col df c) (\<lambda>xs. Inr (slice_closed xs lo hi))"

subsection \<open>Library functions on a column\<close>

definition mean :: "real list \<Rightarrow> real" where
  "mean xs = sum_list xs / real (length xs)"

text \<open>\<^verbatim>\<open>Series.std()\<close>: the sample standard deviation (denominator N-1); NaN, here
  \<open>None\<close>, for fewer than two values.\<close>

definition std :: "real list \<Rightarrow> real option" where
  "std xs =
     (if length xs \<le> 1 then None
      else Some (sqrt (sum_list (map (\<lambda>x. (x - mean xs)\<^sup>2) xs) / real (length xs - 1))))"

text \<open>\<^verbatim>\<open>std < std_threshold\<close>: a comparison with NaN is false.\<close>

definition std_lt :: "real option \<Rightarrow> real \<Rightarrow> bool" where
  "std_lt s t = (case s of None \<Rightarrow> False | Some v \<Rightarrow> v < t)"

text \<open>\<^verbatim>\<open>Series.idxmin()\<close> and \<^verbatim>\<open>Series.idxmax()\<close>: the label of the first occurrence of
  the extremal value, found by one pass that replaces the best position only by a
  strictly better one; ValueError on an empty column.\<close>

fun arg_best :: "(real \<Rightarrow> real \<Rightarrow> bool) \<Rightarrow> nat \<Rightarrow> real \<Rightarrow> nat \<Rightarrow> real list \<Rightarrow> nat" where
  "arg_best better bi bv i [] = bi"
| "arg_best better bi bv i (x # xs) =
     (if better x bv then arg_best better i x (Suc i) xs
      else arg_best better bi bv (Suc i) xs)"

definition idxmin :: "real list \<Rightarrow> error + nat" where
  "idxmin xs = (case xs of [] \<Rightarrow> Inl ValueError | x # rest \<Rightarrow> Inr (arg_best (<) 0 x 1 rest))"

definition idxmax :: "real list \<Rightarrow> error + nat" where
  "idxmax xs = (case xs of [] \<Rightarrow> Inl ValueError | x # rest \<Rightarrow> Inr (arg_best (>) 0 x 1 rest))"

subsection \<open>find_balance_point\<close>

text \<open>The dictionary with the keys \<^verbatim>\<open>'time'\<close> and \<^verbatim>\<open>'force'\<close>.\<close>

record point =
  time :: real
  force :: real

text \<open>\<^verbatim>\<open>{'time': df.loc[l, 'time'], 'force': df.loc[l, 'force']}\<close>\<close>

definition point_at :: "dataframe \<Rightarrow> nat \<Rightarrow> error + point" where
  "point_at df l =
     bnd (loc df (int l) ''time'') (\<lambda>t.
     bnd (loc df (int l) ''force'') (\<lambda>f.
       Inr \<lparr>time = t, force = f\<rparr>))"

text \<open>\<^verbatim>\<open>range(window_size, len(df_after_max) - window_size)\<close>: empty when the
  upper end is not above the lower one.\<close>

definition candidate_range :: "nat list \<Rightarrow> nat \<Rightarrow> nat list" where
  "candidate_range after window_size = [window_size ..< length after - window_size]"

text \<open>The two ends of the label slice of line 42.\<close>

definition window_lo :: "nat \<Rightarrow> nat \<Rightarrow> int" where
  "window_lo current_idx window_size = int current_idx - int window_size"

definition window_hi :: "nat \<Rightarrow> nat \<Rightarrow> int" where
  "window_hi current_idx window_size = int current_idx + int window_size"

text \<open>
  The loop of lines 39 to 51 over the remaining values of \<open>i\<close>: the label of the
  candidate, its window of forces, the test, and the early return. \<open>None\<close> is the end
  of the loop without a return.
\<close>

fun balance_loop ::
  "dataframe \<Rightarrow> nat list \<Rightarrow> nat \<Rightarrow> real \<Rightarrow> nat list \<Rightarrow> error + point option" where
  "balance_loop df after window_size std_threshold [] = Inr None"
| "balance_loop df after window_size std_threshold (i # rest) =
     bnd (index_at after i) (\<lambda>current_idx.
     bnd (loc_slice df (window_lo current_idx window_size)
            (window_hi current_idx window_size) ''force'') (\<lambda>window_data.
       if std_lt (std window_data) std_threshold
       then bnd (point_at df current_idx) (\<lambda>p. Inr (Some p))
       else balance_loop df after window_size std_threshold rest))"

definition find_balance_point :: "dataframe \<Rightarrow> nat \<Rightarrow> nat \<Rightarrow> real \<Rightarrow> error + point" where
  "find_balance_point df max_force_idx window_size std_threshold =
     (let df_after_max = iloc_from_index df max_force_idx in
      bnd (balance_loop df df_after_max window_size std_threshold
             (candidate_range df_after_max window_size))
        (\<lambda>found. case found of
            Some p \<Rightarrow> Inr p
          | None \<Rightarrow> bnd (index_last (index df)) (\<lambda>last_idx. point_at df last_idx)))"

subsection \<open>process_force_data\<close>

text \<open>A name between braces and single quotes, as the two messages show it:
  \<^verbatim>\<open>{'time'}\<close>.\<close>

definition quoted :: "string \<Rightarrow> string" where
  "quoted c = ''{'' @ [CHR 0x27] @ c @ [CHR 0x27] @ ''}''"

text \<open>
  The string literals of the two \<^verbatim>\<open>st.warning\<close> calls (lines 71 and 73), as their
  UTF-8 bytes: Chinese text before and after the quoted name of the role. They are
  plain literals, not format strings. The state of the Streamlit page is the list of
  the messages shown so far.
\<close>

definition time_warning :: string where
  "time_warning =
     [CHR 0xE8, CHR 0x99, CHR 0x95, CHR 0xE7, CHR 0x90, CHR 0x86, CHR 0xE6, CHR 0x95,
      CHR 0xB8, CHR 0xE6, CHR 0x93, CHR 0x9A, CHR 0xE6, CHR 0x89, CHR 0xBE, CHR 0xE4,
      CHR 0xB8, CHR 0x8D, CHR 0xE5, CHR 0x88, CHR 0xB0, CHR 0xE9, CHR 0xA0, CHR 0x90,
      CHR 0xE8, CHR 0xA8, CHR 0xAD, CHR 0xE7, CHR 0x9A, CHR 0x84, CHR 0xE6, CHR 0x99,
      CHR 0x82, CHR 0xE9, CHR 0x96, CHR 0x93, CHR 0xE6, CHR 0xAC, CHR 0x84, CHR 0xE4,
      CHR 0xBD, CHR 0x8D]
       @ '': '' @ quoted ''time''
       @ [CHR 0xEF, CHR 0xBC, CHR 0x8C, CHR 0xE8, CHR 0xAB, CHR 0x8B, CHR 0xE8, CHR 0x87,
      CHR 0xAA, CHR 0xE8, CHR 0xA1, CHR 0x8C, CHR 0xE9, CHR 0x81, CHR 0xB8, CHR 0xE6,
      CHR 0x93, CHR 0x87, CHR 0xE6, CHR 0x99, CHR 0x82, CHR 0xE9, CHR 0x96, CHR 0x93,
      CHR 0xE6, CHR 0xAC, CHR 0x84, CHR 0xE4, CHR 0xBD, CHR 0x8D]"

definition force_warning :: string where
  "force_warning =
     [CHR 0xE8, CHR 0x99, CHR 0x95, CHR 0xE7, CHR 0x90, CHR 0x86, CHR 0xE6, CHR 0x95,
      CHR 0xB8, CHR 0xE6, CHR 0x93, CHR 0x9A, CHR 0xE6, CHR 0x89, CHR 0xBE, CHR 0xE4,
      CHR 0xB8, CHR 0x8D, CHR 0xE5, CHR 0x88, CHR 0xB0, CHR 0xE9, CHR 0xA0, CHR 0x90,
      CHR 0xE8, CHR 0xA8, CHR 0xAD, CHR 0xE7, CHR 0x9A, CHR 0x84, CHR 0xE5, CHR 0x8A,
      CHR 0x9B, CHR 0xE9, CHR 0x87, CHR 0x8F, CHR 0xE6, CHR 0xAC, CHR 0x84, CHR 0xE4,
      CHR 0xBD, CHR 0x8D]
       @ '': '' @ quoted ''force''
       @ [CHR 0xEF, CHR 0xBC, CHR 0x8C, CHR 0xE8, CHR 0xAB, CHR 0x8B, CHR 0xE8, CHR 0x87,
      CHR 0xAA, CHR 0xE8, CHR 0xA1, CHR 0x8C, CHR 0xE9, CHR 0x81, CHR 0xB8, CHR 0xE6,
      CHR 0x93, CHR 0x87, CHR 0xE5, CHR 0x8A, CHR 0x9B, CHR 0xE9, CHR 0x87, CHR 0x8F,
      CHR 0xE6, CHR 0xAC, CHR 0x84, CHR 0xE4, CHR 0xBD, CHR 0x8D]"

type_synonym st = "string list"

definition st_warning :: "string \<Rightarrow> st \<Rightarrow> st" where
  "st_warning msg s = s @ [msg]"

text \<open>The body of the loop over the missing columns (lines 69 to 73).\<close>

definition warn_missing :: "string \<Rightarrow> st \<Rightarrow> st" where
  "warn_missing c s =
     (let s1 = (if c = ''time'' then st_warning time_warning s else s)
      in if c = ''force'' then st_warning force_warning s1 else s1)"

record stats =
  RFD :: real
  recovery_time :: real

text \<open>The dictionary \<^verbatim>\<open>points\<close> with the keys \<^verbatim>\<open>'A'\<close>, \<^verbatim>\<open>'B'\<close>, \<^verbatim>\<open>'C'\<close> and
  \<^verbatim>\<open>'stats'\<close>; the fields carry the names of the variables stored under them.\<close>

record points =
  point_a :: point
  point_b :: point
  point_c :: point
  stats :: stats

text \<open>
  \<^verbatim>\<open>missing_columns\<close> is a Python set, whose iteration order is not fixed; the model
  visits \<^verbatim>\<open>'time'\<close> first. The result is the page state with the pair the function
  returns, \<open>None\<close> for \<^verbatim>\<open>points\<close> when a column is missing.
\<close>

definition missing_columns :: "dataframe \<Rightarrow> string list" where
  "missing_columns df = filter (\<lambda>c. c \<notin> set (columns df)) [''time'', ''force'']"

text \<open>
  When the frame has both names but one of them more than once, the function raises.
  With a repeated \<^verbatim>\<open>'force'\<close>, \<^verbatim>\<open>df['force']\<close> is a DataFrame: on a frame without
  rows \<^verbatim>\<open>idxmin()\<close> raises ValueError, and otherwise \<^verbatim>\<open>idxmax()\<close> is a Series, with
  which \<^verbatim>\<open>df.iloc[max_force_idx:]\<close> of line 36 raises TypeError. With a repeated
  \<^verbatim>\<open>'time'\<close> alone, \<^verbatim>\<open>idxmin()\<close> raises ValueError on a frame without rows, and
  otherwise the cells of lines 79 and 85 are Series, \<^verbatim>\<open>delta_time\<close> is a Series, and
  its test in line 94 raises ValueError.

  The two differences of lines 92 and 93 and the one of line 96 are differences of two
  cells of one column, so they wrap around for an int64 column. The division of line 94
  is the true division, also for int64 operands.
\<close>

definition process_force_data ::
  "st \<Rightarrow> dataframe \<Rightarrow> error + (st \<times> dataframe \<times> points option)" where
  "process_force_data s df =
     (if \<not> set [''time'', ''force''] \<subseteq> set (columns df)
      then Inr (fold warn_missing (missing_columns df) s, df, None)
      else if repeated df ''force''
      then (if len_df df = 0 then Inl ValueError else Inl TypeError)
      else if repeated df ''time''
      then Inl ValueError
      else
        bnd (col df ''force'') (\<lambda>forces.
        bnd (idxmin forces) (\<lambda>min_force_idx.
        bnd (point_at df min_force_idx) (\<lambda>a.
        bnd (idxmax forces) (\<lambda>max_force_idx.
        bnd (point_at df max_force_idx) (\<lambda>b.
        bnd (find_balance_point df max_force_idx 30 1) (\<lambda>c.
          let delta_force = sub_cells (dtype_of df ''force'') (force b) (force a);
              delta_time = sub_cells (dtype_of df ''time'') (time b) (time a);
              rfd = (if delta_time \<noteq> 0 then delta_force / delta_time else 0);
              rt = sub_cells (dtype_of df ''time'') (time c) (time b)
          in Inr (s, df, Some \<lparr>point_a = a, point_b = b, point_c = c,
                    stats = \<lparr>RFD = rfd, recovery_time = rt\<rparr>\<rparr>))))))))"

subsection \<open>Notions used to state the properties\<close>

text \<open>The sample of the series at position \<open>k\<close>, as a key point.\<close>

definition sample :: "real list \<Rightarrow> real list \<Rightarrow> nat \<Rightarrow> point" where
  "sample ts fs k = \<lparr>time = ts ! k, force = fs ! k\<rparr>"

text \<open>The forces at the positions \<open>j - w, ..., j + w\<close> of the series, for \<open>w \<le> j\<close>.\<close>

definition window :: "real list \<Rightarrow> nat \<Rightarrow> nat \<Rightarrow> real list" where
  "window fs j w = map (\<lambda>k. fs ! k) [j - w ..< Suc (j + w)]"

text \<open>Position \<open>r\<close> holds the least (greatest) value of \<open>ys\<close>, and no earlier position
  does.\<close>

definition first_min :: "real list \<Rightarrow> nat \<Rightarrow> bool" where
  "first_min ys r =
     (r < length ys \<and> (\<forall>j<length ys. ys ! r \<le> ys ! j) \<and> (\<forall>j<r. ys ! r < ys ! j))"

definition first_max :: "real list \<Rightarrow> nat \<Rightarrow> bool" where
  "first_max ys r =
     (r < length ys \<and> (\<forall>j<length ys. ys ! j \<le> ys ! r) \<and> (\<forall>j<r. ys ! j < ys ! r))"

text \<open>The text \<open>pat\<close> occurs in the text \<open>s\<close>.\<close>

fun occurs_in :: "string \<Rightarrow> string \<Rightarrow> bool" where
  "occurs_in pat [] = (pat = [])"
| "occurs_in pat (x # xs) = (take (length pat) (x # xs) = pat \<or> occurs_in pat xs)"

text \<open>The difference of any two cells of the column is exact: the column is float64, or
  all differences of its values lie in the 64-bit range.\<close>

definition exact_sub :: "dtype \<Rightarrow> real list \<Rightarrow> bool" where
  "exact_sub d xs =
     (case d of
        Float64 \<Rightarrow> True
      | Int64 \<Rightarrow> list_all (\<lambda>x. list_all (\<lambda>y. - (2 ^ 63) \<le> x - y \<and> x - y < 2 ^ 63) xs) xs)"

subsection \<open>Example inputs\<close>

text \<open>A series that rises to its peak at position 2 and is flat from position 3 on, and
  the key points \<^verbatim>\<open>process_force_data\<close> finds in it; frames without a force column,
  without a time column, and without rows.\<close>

definition df0 :: dataframe where
  "df0 = [(''time'', Float64, [0, 1, 2, 3, 4, 5, 6, 7, 8]),
          (''force'', Float64, [0, 3, 10, 5, 5, 5, 5, 5, 5])]"

definition pts0 :: points where
  "pts0 = \<lparr>point_a = \<lparr>time = 0, force = 0\<rparr>, point_b = \<lparr>time = 2, force = 10\<rparr>,
           point_c = \<lparr>time = 8, force = 5\<rparr>, stats = \<lparr>RFD = 5, recovery_time = 6\<rparr>\<rparr>"

definition df_missing_force :: dataframe where
  "df_missing_force = [(''time'', Float64, [0, 1, 2])]"

definition df_missing_time :: dataframe where
  "df_missing_time = [(''force'', Float64, [0, 1, 2])]"


text \<open>Two frames of integer columns, as \<^verbatim>\<open>pd.read_csv\<close> builds them from a file of
  integers, with the results of \<^verbatim>\<open>process_force_data\<close>: one whose forces span the
  whole 64-bit range, one whose times do and whose peak is the first sample.\<close>

definition df_wrap_force :: dataframe where
  "df_wrap_force = [(''time'', Int64, [0, 1]),
                    (''force'', Int64, [- 9223372036854775808, 9223372036854775807])]"

definition pts_wrap_force :: points where
  "pts_wrap_force =
     \<lparr>point_a = \<lparr>time = 0, force = - 9223372036854775808\<rparr>,
      point_b = \<lparr>time = 1, force = 9223372036854775807\<rparr>,
      point_c = \<lparr>time = 1, force = 9223372036854775807\<rparr>,
      stats = \<lparr>RFD = - 1, recovery_time = 0\<rparr>\<rparr>"

definition df_wrap_time :: dataframe where
  "df_wrap_time = [(''time'', Int64, [- 9223372036854775808, 9223372036854775807]),
                   (''force'', Int64, [1, 0])]"

definition pts_wrap_time :: points where
  "pts_wrap_time =
     \<lparr>point_a = \<lparr>time = 9223372036854775807, force = 0\<rparr>,
      point_b = \<lparr>time = - 9223372036854775808, force = 1\<rparr>,
      point_c = \<lparr>time = 9223372036854775807, force = 0\<rparr>,
      stats = \<lparr>RFD = 1, recovery_time = - 1\<rparr>\<rparr>"

text \<open>Frames that carry a name twice, as the renaming in \<^verbatim>\<open>app.py\<close> builds them from
  a file with the columns time, force and a third one selected as time or as force.\<close>

definition df_two_times :: dataframe where
  "df_two_times = [(''time'', Float64, [0, 1]), (''force'', Float64, [1, 2]),
                   (''time'', Float64, [5, 6])]"

definition df_two_forces :: dataframe where
  "df_two_forces = [(''time'', Float64, [0, 1]), (''force'', Float64, [1, 2]),
                    (''force'', Float64, [5, 6])]"

section \<open>Properties\<close>

subsection \<open>The DataFrame and the extremum lookups\<close>

lemma col_selection: "col df c = Inr xs \<Longrightarrow> \<exists>d. selection df c = [(c, d, xs)]"
proof -
  assume a: "col df c = Inr xs"
  then obtain n d where s: "selection df c = [(n, d, xs)]"
    by (auto simp: col_def split: list.splits)
  then have "(n, d, xs) \<in> set (selection df c)" by simp
  then have "n = c" by (simp add: selection_def)
  with s show ?thesis by blast
qed

lemma col_member: "col df c = Inr xs \<Longrightarrow> (c, dtype_of df c, xs) \<in> set df"
proof -
  assume "col df c = Inr xs"
  then obtain d where s: "selection df c = [(c, d, xs)]" using col_selection by blast
  then have "(c, d, xs) \<in> set (selection df c)" by simp
  then have "(c, d, xs) \<in> set df" by (simp add: selection_def)
  moreover have "dtype_of df c = d" using s by (simp add: dtype_of_def)
  ultimately show ?thesis by simp
qed

lemma col_not_repeated: "col df c = Inr xs \<Longrightarrow> \<not> repeated df c"
  using col_selection[of df c xs] by (auto simp: repeated_def)

lemma wf_col_length: "wf_df df \<Longrightarrow> col df c = Inr xs \<Longrightarrow> length xs = len_df df"
  using col_member[of df c xs] by (auto simp: wf_df_def list_all_iff)

lemma wf_col_int64:
  "wf_df df \<Longrightarrow> col df c = Inr xs \<Longrightarrow> dtype_of df c = Int64 \<Longrightarrow> x \<in> set xs \<Longrightarrow> int64_value x"
  using col_member[of df c xs] by (auto simp: wf_df_def list_all_iff)

lemma col_in_columns: "col df c = Inr xs \<Longrightarrow> c \<in> set (columns df)"
  using col_member[of df c xs] by (force simp: columns_def)

lemma arg_best_first_min:
  "bi < i \<Longrightarrow> i \<le> length ys \<Longrightarrow> first_min (take i ys) bi \<Longrightarrow> bv = ys ! bi
   \<Longrightarrow> first_min ys (arg_best (<) bi bv i (drop i ys))"
proof (induction "length ys - i" arbitrary: i bi bv)
  case 0
  then show ?case by simp
next
  case (Suc n)
  then have lt: "i < length ys" by simp
  have d: "drop i ys = ys ! i # drop (Suc i) ys"
    using lt by (simp add: Cons_nth_drop_Suc)
  have t: "take (Suc i) ys = take i ys @ [ys ! i]"
    using lt by (simp add: take_Suc_conv_app_nth)
  have n: "n = length ys - Suc i" using Suc.hyps(2) by simp
  show ?case
  proof (cases "ys ! i < bv")
    case True
    have "first_min (take (Suc i) ys) i"
      using Suc.prems True lt
      by (auto simp: first_min_def less_Suc_eq nth_append t)
    then have "first_min ys (arg_best (<) i (ys ! i) (Suc i) (drop (Suc i) ys))"
      using Suc.hyps(1)[OF n, of i "ys ! i"] lt by simp
    then show ?thesis using True d by simp
  next
    case False
    have "first_min (take (Suc i) ys) bi"
      using Suc.prems False lt
      by (auto simp: first_min_def less_Suc_eq nth_append t)
    then have "first_min ys (arg_best (<) bi bv (Suc i) (drop (Suc i) ys))"
      using Suc.hyps(1)[OF n, of bi bv] Suc.prems lt by simp
    then show ?thesis using False d by simp
  qed
qed

lemma idxmin_first_min: "xs \<noteq> [] \<Longrightarrow> \<exists>r. idxmin xs = Inr r \<and> first_min xs r"
proof -
  assume ne: "xs \<noteq> []"
  then obtain x rest where xs: "xs = x # rest" by (cases xs) auto
  have "first_min (take 1 xs) 0" by (simp add: first_min_def xs)
  then have "first_min xs (arg_best (<) 0 (xs ! 0) 1 (drop 1 xs))"
    using arg_best_first_min[of 0 1 xs "xs ! 0"] ne by (simp add: xs)
  then show ?thesis by (simp add: idxmin_def xs)
qed

lemma arg_best_greater:
  "arg_best (>) bi bv i xs = arg_best (<) bi (- bv) i (map uminus xs)"
  by (induction xs arbitrary: bi bv i) auto

lemma idxmax_idxmin: "idxmax xs = idxmin (map uminus xs)"
  by (cases xs) (simp_all add: idxmax_def idxmin_def arg_best_greater)

lemma first_min_uminus: "first_min (map uminus ys) r \<longleftrightarrow> first_max ys r"
  by (auto simp: first_min_def first_max_def)

lemma idxmax_first_max: "xs \<noteq> [] \<Longrightarrow> \<exists>r. idxmax xs = Inr r \<and> first_max xs r"
  using idxmin_first_min[of "map uminus xs"] by (simp add: idxmax_idxmin first_min_uminus)

lemma wrap64_id: "- (2 ^ 63) \<le> k \<Longrightarrow> k < 2 ^ 63 \<Longrightarrow> wrap64 k = k"
  by (simp add: wrap64_def)

lemma sub_cells_exact:
  assumes wf: "wf_df df" and c: "col df n = Inr xs" and e: "exact_sub (dtype_of df n) xs"
    and a: "a \<in> set xs" and b: "b \<in> set xs"
  shows "sub_cells (dtype_of df n) a b = a - b"
proof (cases "dtype_of df n")
  case Float64
  then show ?thesis by (simp add: sub_cells_def)
next
  case Int64
  have ia: "of_int \<lfloor>a\<rfloor> = a" and ib: "of_int \<lfloor>b\<rfloor> = b"
    using wf_col_int64[OF wf c Int64 a] wf_col_int64[OF wf c Int64 b]
    by (simp_all add: int64_value_def)
  have r: "- (2 ^ 63) \<le> a - b" "a - b < 2 ^ 63"
    using e a b Int64 by (auto simp: exact_sub_def list_all_iff)
  have d: "of_int (\<lfloor>a\<rfloor> - \<lfloor>b\<rfloor>) = a - b" by (simp only: of_int_diff ia ib)
  have "- (2 ^ 63) \<le> \<lfloor>a\<rfloor> - \<lfloor>b\<rfloor>" "\<lfloor>a\<rfloor> - \<lfloor>b\<rfloor> < 2 ^ 63"
  proof -
    have "(of_int (- (2 ^ 63)) :: real) \<le> of_int (\<lfloor>a\<rfloor> - \<lfloor>b\<rfloor>)" using r d by simp
    then show "- (2 ^ 63) \<le> \<lfloor>a\<rfloor> - \<lfloor>b\<rfloor>" by (simp only: of_int_le_iff)
    have "(of_int (\<lfloor>a\<rfloor> - \<lfloor>b\<rfloor>) :: real) < of_int (2 ^ 63)" using r d by simp
    then show "\<lfloor>a\<rfloor> - \<lfloor>b\<rfloor> < 2 ^ 63" by (simp only: of_int_less_iff)
  qed
  then have "wrap64 (\<lfloor>a\<rfloor> - \<lfloor>b\<rfloor>) = \<lfloor>a\<rfloor> - \<lfloor>b\<rfloor>" by (rule wrap64_id)
  then show ?thesis using Int64 d by (simp add: sub_cells_def)
qed

subsection \<open>The scan for the balance point\<close>

lemma iloc_from_index_upt: "iloc_from_index df b = [b ..< len_df df]"
  by (simp add: iloc_from_index_def index_def)

lemma point_at_sample:
  "col df ''time'' = Inr ts \<Longrightarrow> col df ''force'' = Inr fs \<Longrightarrow> k < length ts
   \<Longrightarrow> k < length fs \<Longrightarrow> point_at df k = Inr (sample ts fs k)"
  by (simp add: point_at_def loc_def bnd_def sample_def)

lemma slice_closed_window:
  "w \<le> j \<Longrightarrow> j + w < length fs
   \<Longrightarrow> slice_closed fs (window_lo j w) (window_hi j w) = window fs j w"
proof -
  assume a: "w \<le> j" "j + w < length fs"
  have lo: "nat (window_lo j w) = j - w" using a by (simp add: window_lo_def)
  have hi: "nat (window_hi j w + 1) = Suc (j + w)" by (simp add: window_hi_def nat_add_distrib)
  have "take (Suc (j + w) - (j - w)) (drop (j - w) fs) = map (\<lambda>k. fs ! k) [j - w ..< Suc (j + w)]"
    using a by (auto intro!: nth_equalityI simp del: upt_Suc)
  then show ?thesis by (simp add: slice_closed_def lo hi window_def)
qed

lemma balance_loop_find:
  assumes t: "col df ''time'' = Inr ts" and f: "col df ''force'' = Inr fs"
    and lt: "length ts = n" and lf: "length fs = n"
    and rng: "\<forall>i\<in>set cands. w \<le> i \<and> b + i + w < n"
  shows "balance_loop df [b ..< n] w thr cands =
     Inr (map_option (\<lambda>i. sample ts fs (b + i))
            (find (\<lambda>i. std_lt (std (window fs (b + i) w)) thr) cands))"
  using rng
proof (induction cands)
  case Nil
  then show ?case by simp
next
  case (Cons i rest)
  then have i: "w \<le> i" "b + i + w < n" by simp_all
  have at: "index_at [b ..< n] i = Inr (b + i)"
    using i by (simp add: index_at_def)
  have sl: "loc_slice df (window_lo (b + i) w) (window_hi (b + i) w) ''force'' = Inr (window fs (b + i) w)"
    using i f lf slice_closed_window[of w "b + i" fs]
    by (simp add: loc_slice_def bnd_def)
  have pt: "point_at df (b + i) = Inr (sample ts fs (b + i))"
    using point_at_sample[OF t f, of "b + i"] i lt lf by simp
  show ?case
    using Cons.IH Cons.prems by (simp add: at sl pt bnd_def)
qed

lemma find_balance_point_char:
  assumes wf: "wf_df df" and t: "col df ''time'' = Inr ts" and f: "col df ''force'' = Inr fs"
  shows "find_balance_point df b w thr =
     (case find (\<lambda>i. std_lt (std (window fs (b + i) w)) thr) [w ..< (length fs - b) - w] of
        Some i \<Rightarrow> Inr (sample ts fs (b + i))
      | None \<Rightarrow> if fs = [] then Inl IndexError else Inr (sample ts fs (length fs - 1)))"
proof -
  let ?n = "len_df df"
  have lt: "length ts = ?n" and lf: "length fs = ?n"
    using wf_col_length[OF wf t] wf_col_length[OF wf f] by simp_all
  have rng: "\<forall>i\<in>set [w ..< (?n - b) - w]. w \<le> i \<and> b + i + w < ?n" by auto
  have loop: "balance_loop df [b ..< ?n] w thr [w ..< (?n - b) - w] =
     Inr (map_option (\<lambda>i. sample ts fs (b + i))
            (find (\<lambda>i. std_lt (std (window fs (b + i) w)) thr) [w ..< (?n - b) - w]))"
    by (rule balance_loop_find[OF t f lt lf rng])
  have lst: "?n \<noteq> 0 \<Longrightarrow> point_at df (last [0 ..< ?n]) = Inr (sample ts fs (?n - 1))"
    using point_at_sample[OF t f, of "?n - 1"] lt lf
    by (cases ?n) simp_all
  have fbp: "find_balance_point df b w thr =
      bnd (balance_loop df [b ..< ?n] w thr [w ..< (?n - b) - w])
        (\<lambda>found. case found of Some p \<Rightarrow> Inr p
           | None \<Rightarrow> bnd (index_last [0 ..< ?n]) (\<lambda>last_idx. point_at df last_idx))"
    unfolding find_balance_point_def iloc_from_index_upt candidate_range_def index_def Let_def
    by simp
  show ?thesis
  proof (cases "find (\<lambda>i. std_lt (std (window fs (b + i) w)) thr) [w ..< (?n - b) - w]")
    case None
    then show ?thesis
      unfolding fbp loop using lst lf
      by (auto simp add: bnd_def index_last_def)
  next
    case (Some i)
    then show ?thesis
      unfolding fbp loop by (simp add: bnd_def lf)
  qed
qed

lemma candidate_at:
  assumes "i \<in> set (candidate_range (iloc_from_index df b) w)"
  shows "index_at (iloc_from_index df b) i = Inr (b + i) \<and> w \<le> i \<and> b + i + w < len_df df"
  using assms by (auto simp: candidate_range_def iloc_from_index_upt index_at_def)

lemma find_upt_first:
  assumes "lo \<le> m" "m < hi" "P m" "\<forall>k. lo \<le> k \<and> k < m \<longrightarrow> \<not> P k"
  shows "find P [lo ..< hi] = Some m"
proof -
  have "m - lo < length [lo ..< hi]" using assms by simp
  moreover have "P ([lo ..< hi] ! (m - lo))" using assms by simp
  moreover have "m = [lo ..< hi] ! (m - lo)" using assms by simp
  moreover have "\<forall>j<m - lo. \<not> P ([lo ..< hi] ! j)" using assms by simp
  ultimately show ?thesis unfolding find_Some_iff by blast
qed

lemma find_balance_point_index:
  assumes wf: "wf_df df" and t: "col df ''time'' = Inr ts" and f: "col df ''force'' = Inr fs"
    and b: "b < length fs"
  shows "\<exists>k. b \<le> k \<and> k < length fs \<and> find_balance_point df b w thr = Inr (sample ts fs k)"
proof -
  let ?P = "\<lambda>i. std_lt (std (window fs (b + i) w)) thr"
  note ch = find_balance_point_char[OF wf t f, of b w thr]
  show ?thesis
  proof (cases "find ?P [w ..< (length fs - b) - w]")
    case None
    then have "find_balance_point df b w thr = Inr (sample ts fs (length fs - 1))"
      using ch b by auto
    then show ?thesis using b by (intro exI[of _ "length fs - 1"]) auto
  next
    case (Some i)
    then have "i \<in> set [w ..< (length fs - b) - w]"
      unfolding find_Some_iff by (metis nth_mem)
    then have "b + i < length fs" by auto
    then show ?thesis using ch Some by (intro exI[of _ "b + i"]) simp
  qed
qed

subsection \<open>The key points of a series\<close>

lemma first_min_Min:
  assumes "first_min ys r"
  shows "ys ! r = Min (set ys) \<and> (\<forall>j<length ys. ys ! j = Min (set ys) \<longrightarrow> r \<le> j)"
proof -
  have r: "r < length ys" and le: "\<forall>j<length ys. ys ! r \<le> ys ! j" and lt: "\<forall>j<r. ys ! r < ys ! j"
    using assms by (simp_all add: first_min_def)
  have "ys ! r \<in> set ys" using r by simp
  moreover have "\<forall>y\<in>set ys. ys ! r \<le> y" using le by (auto simp: in_set_conv_nth)
  ultimately have m: "Min (set ys) = ys ! r" by (intro Min_eqI) auto
  have "\<forall>j<length ys. ys ! j = ys ! r \<longrightarrow> r \<le> j"
  proof (intro allI impI)
    fix j assume "j < length ys" "ys ! j = ys ! r"
    then show "r \<le> j" using lt[rule_format, of j] by (cases "j < r") auto
  qed
  then show ?thesis using m by simp
qed

lemma first_max_Max:
  assumes "first_max ys r"
  shows "ys ! r = Max (set ys) \<and> (\<forall>j<length ys. ys ! j = Max (set ys) \<longrightarrow> r \<le> j)"
proof -
  have r: "r < length ys" and le: "\<forall>j<length ys. ys ! j \<le> ys ! r" and lt: "\<forall>j<r. ys ! j < ys ! r"
    using assms by (simp_all add: first_max_def)
  have "ys ! r \<in> set ys" using r by simp
  moreover have "\<forall>y\<in>set ys. y \<le> ys ! r" using le by (auto simp: in_set_conv_nth)
  ultimately have m: "Max (set ys) = ys ! r" by (intro Max_eqI) auto
  have "\<forall>j<length ys. ys ! j = ys ! r \<longrightarrow> r \<le> j"
  proof (intro allI impI)
    fix j assume "j < length ys" "ys ! j = ys ! r"
    then show "r \<le> j" using lt[rule_format, of j] by (cases "j < r") auto
  qed
  then show ?thesis using m by simp
qed

lemma process_force_data_char:
  assumes wf: "wf_df df" and t: "col df ''time'' = Inr ts" and f: "col df ''force'' = Inr fs"
    and ne: "fs \<noteq> []"
  shows "\<exists>ia ib ic st. idxmin fs = Inr ia \<and> first_min fs ia \<and> idxmax fs = Inr ib \<and> first_max fs ib
     \<and> ib \<le> ic \<and> ic < length fs
     \<and> find_balance_point df ib 30 1 = Inr (sample ts fs ic)
     \<and> process_force_data s df = Inr (s, df, Some
          \<lparr>point_a = sample ts fs ia, point_b = sample ts fs ib, point_c = sample ts fs ic,
           stats = st\<rparr>)
     \<and> RFD st = (if sub_cells (dtype_of df ''time'') (ts ! ib) (ts ! ia) \<noteq> 0
                 then sub_cells (dtype_of df ''force'') (fs ! ib) (fs ! ia)
                        / sub_cells (dtype_of df ''time'') (ts ! ib) (ts ! ia)
                 else 0)
     \<and> recovery_time st = sub_cells (dtype_of df ''time'') (ts ! ic) (ts ! ib)"
proof -
  obtain ia where ia: "idxmin fs = Inr ia" "first_min fs ia"
    using idxmin_first_min[OF ne] by blast
  obtain ib where ib: "idxmax fs = Inr ib" "first_max fs ib"
    using idxmax_first_max[OF ne] by blast
  have la: "ia < length fs" and lb: "ib < length fs"
    using ia ib by (simp_all add: first_min_def first_max_def)
  obtain ic where ic: "ib \<le> ic" "ic < length fs"
      "find_balance_point df ib 30 1 = Inr (sample ts fs ic)"
    using find_balance_point_index[OF wf t f lb] by blast
  have len: "length ts = length fs"
    using wf t f by (simp add: wf_col_length)
  have pa: "point_at df ia = Inr (sample ts fs ia)"
    using point_at_sample[OF t f] la len by simp
  have pb: "point_at df ib = Inr (sample ts fs ib)"
    using point_at_sample[OF t f] lb len by simp
  have cols: "set [''time'', ''force''] \<subseteq> set (columns df)"
    using col_in_columns[OF t] col_in_columns[OF f] by simp
  have rep: "\<not> repeated df ''time''" "\<not> repeated df ''force''"
    using col_not_repeated[OF t] col_not_repeated[OF f] by simp_all
  let ?st = "\<lparr>RFD = (if sub_cells (dtype_of df ''time'') (ts ! ib) (ts ! ia) \<noteq> 0
                 then sub_cells (dtype_of df ''force'') (fs ! ib) (fs ! ia)
                        / sub_cells (dtype_of df ''time'') (ts ! ib) (ts ! ia)
                 else 0),
              recovery_time = sub_cells (dtype_of df ''time'') (ts ! ic) (ts ! ib)\<rparr>"
  have "process_force_data s df = Inr (s, df, Some
          \<lparr>point_a = sample ts fs ia, point_b = sample ts fs ib, point_c = sample ts fs ic,
           stats = ?st\<rparr>)"
    unfolding process_force_data_def using cols rep
    by (simp add: f ia ib pa pb ic bnd_def sample_def Let_def)
  then show ?thesis using ia ib ic
    by (intro exI[of _ ia] exI[of _ ib] exI[of _ ic] exI[of _ ?st]) simp
qed

text \<open>The same, with the positions known, for a series too short for a candidate.\<close>

lemma process_force_data_short:
  assumes wf: "wf_df df" and t: "col df ''time'' = Inr ts" and f: "col df ''force'' = Inr fs"
    and ne: "fs \<noteq> []" and ia: "idxmin fs = Inr ia" and ib: "idxmax fs = Inr ib"
    and short: "length fs \<le> 60"
  shows "process_force_data s df = Inr (s, df, Some
          \<lparr>point_a = sample ts fs ia, point_b = sample ts fs ib,
           point_c = sample ts fs (length fs - 1),
           stats = \<lparr>RFD = (if sub_cells (dtype_of df ''time'') (ts ! ib) (ts ! ia) \<noteq> 0
                 then sub_cells (dtype_of df ''force'') (fs ! ib) (fs ! ia)
                        / sub_cells (dtype_of df ''time'') (ts ! ib) (ts ! ia)
                 else 0),
              recovery_time =
                sub_cells (dtype_of df ''time'') (ts ! (length fs - 1)) (ts ! ib)\<rparr>\<rparr>)"
proof -
  obtain ia' where ia': "idxmin fs = Inr ia'" "first_min fs ia'"
    using idxmin_first_min[OF ne] by blast
  obtain ib' where ib': "idxmax fs = Inr ib'" "first_max fs ib'"
    using idxmax_first_max[OF ne] by blast
  have la: "ia < length fs" and lb: "ib < length fs"
    using ia ib ia' ib' by (simp_all add: first_min_def first_max_def)
  have "find (\<lambda>i. std_lt (std (window fs (ib + i) 30)) 1) [30 ..< (length fs - ib) - 30] = None"
    using short by simp
  then have c: "find_balance_point df ib 30 1 = Inr (sample ts fs (length fs - 1))"
    using find_balance_point_char[OF wf t f, of ib 30 1] ne by simp
  have len: "length ts = length fs"
    using wf t f by (simp add: wf_col_length)
  have pa: "point_at df ia = Inr (sample ts fs ia)"
    using point_at_sample[OF t f] la len by simp
  have pb: "point_at df ib = Inr (sample ts fs ib)"
    using point_at_sample[OF t f] lb len by simp
  have cols: "set [''time'', ''force''] \<subseteq> set (columns df)"
    using col_in_columns[OF t] col_in_columns[OF f] by simp
  have rep: "\<not> repeated df ''time''" "\<not> repeated df ''force''"
    using col_not_repeated[OF t] col_not_repeated[OF f] by simp_all
  show ?thesis
    unfolding process_force_data_def using cols rep
    by (simp add: f ia ib pa pb c bnd_def sample_def Let_def)
qed

lemma fold_warn_missing:
  "fold warn_missing (missing_columns df) s =
     s @ (if ''time'' \<in> set (columns df) then [] else [time_warning])
       @ (if ''force'' \<in> set (columns df) then [] else [force_warning])"
  by (simp add: missing_columns_def warn_missing_def st_warning_def)

subsection \<open>The two messages\<close>

lemma time_warning_names:
  "occurs_in (quoted ''time'') time_warning" "\<not> occurs_in (quoted ''force'') time_warning"
  by (simp_all add: time_warning_def quoted_def)

lemma force_warning_names:
  "occurs_in (quoted ''force'') force_warning" "\<not> occurs_in (quoted ''time'') force_warning"
  by (simp_all add: force_warning_def quoted_def)

subsection \<open>The example inputs, evaluated\<close>

lemma df0_wf: "wf_df df0"
  by (simp add: wf_df_def df0_def len_df_def)

lemma df0_time: "col df0 ''time'' = Inr [0, 1, 2, 3, 4, 5, 6, 7, 8]"
  by (simp add: col_def selection_def df0_def)

lemma df0_force: "col df0 ''force'' = Inr [0, 3, 10, 5, 5, 5, 5, 5, 5]"
  by (simp add: col_def selection_def df0_def)

lemma df0_dtype: "dtype_of df0 ''time'' = Float64" "dtype_of df0 ''force'' = Float64"
  by (simp_all add: dtype_of_def selection_def df0_def)

lemma df0_cands: "candidate_range (iloc_from_index df0 2) 2 = [2, 3, 4]"
  by (simp add: candidate_range_def iloc_from_index_def index_def df0_def len_df_def
      eval_nat_numeral)

lemma std_flat: "std_lt (std [5, 5, 5, 5, 5]) 1"
  by (simp add: std_lt_def std_def mean_def)

lemma std_step: "\<not> std_lt (std [10, 5, 5, 5, 5]) 1"
  by (simp add: std_lt_def std_def mean_def power2_eq_square)

lemma df0_window4: "window [0, 3, 10, 5, 5, 5, 5, 5, 5] 4 2 = [10, 5, 5, 5, 5]"
  by (simp add: window_def eval_nat_numeral)

lemma df0_window5: "window [0, 3, 10, 5, 5, 5, 5, 5, 5] 5 2 = [5, 5, 5, 5, 5]"
  by (simp add: window_def eval_nat_numeral)

lemma df0_idxmin: "idxmin [0, 3, 10, 5, 5, 5, 5, 5, 5] = Inr 0"
  by (simp add: idxmin_def)

lemma df0_idxmax: "idxmax [0, 3, 10, 5, 5, 5, 5, 5, 5] = Inr 2"
  by (simp add: idxmax_def eval_nat_numeral)

lemma df0_process: "process_force_data [] df0 = Inr ([], df0, Some pts0)"
proof -
  have ne: "[0, 3, 10, 5, 5, 5, 5, 5, 5::real] \<noteq> []" by simp
  have short: "length [0, 3, 10, 5, 5, 5, 5, 5, 5::real] \<le> 60" by simp
  show ?thesis
    unfolding process_force_data_short[OF df0_wf df0_time df0_force ne df0_idxmin df0_idxmax short]
    by (simp add: pts0_def sample_def df0_dtype sub_cells_def)
qed




lemma df_missing_force_columns: "columns df_missing_force = [''time'']"
  by (simp add: columns_def df_missing_force_def)

lemma df_missing_time_columns: "columns df_missing_time = [''force'']"
  by (simp add: columns_def df_missing_time_def)

lemma df_missing_force_process:
  "process_force_data [] df_missing_force = Inr ([force_warning], df_missing_force, None)"
  unfolding process_force_data_def
  by (simp add: df_missing_force_columns fold_warn_missing)

lemma df_missing_time_process:
  "process_force_data [] df_missing_time = Inr ([time_warning], df_missing_time, None)"
  unfolding process_force_data_def
  by (simp add: df_missing_time_columns fold_warn_missing)

lemma wrap64_max: "wrap64 18446744073709551615 = - 1"
  by (simp add: wrap64_def)

lemma wrap64_min: "wrap64 (- 18446744073709551615) = 1"
  by (simp add: wrap64_def)

lemma df_wrap_force_wf: "wf_df df_wrap_force"
  by (simp add: wf_df_def df_wrap_force_def len_df_def int64_value_def)

lemma df_wrap_force_time: "col df_wrap_force ''time'' = Inr [0, 1]"
  by (simp add: col_def selection_def df_wrap_force_def)

lemma df_wrap_force_force:
  "col df_wrap_force ''force'' = Inr [- 9223372036854775808, 9223372036854775807]"
  by (simp add: col_def selection_def df_wrap_force_def)

lemma df_wrap_force_dtype:
  "dtype_of df_wrap_force ''time'' = Int64" "dtype_of df_wrap_force ''force'' = Int64"
  by (simp_all add: dtype_of_def selection_def df_wrap_force_def)

lemma df_wrap_force_process:
  "process_force_data [] df_wrap_force = Inr ([], df_wrap_force, Some pts_wrap_force)"
proof -
  have ne: "[- 9223372036854775808, 9223372036854775807::real] \<noteq> []" by simp
  have short: "length [- 9223372036854775808, 9223372036854775807::real] \<le> 60" by simp
  have mn: "idxmin [- 9223372036854775808, 9223372036854775807] = Inr 0"
    by (simp add: idxmin_def)
  have mx: "idxmax [- 9223372036854775808, 9223372036854775807] = Inr 1"
    by (simp add: idxmax_def)
  show ?thesis
    unfolding process_force_data_short[OF df_wrap_force_wf df_wrap_force_time
        df_wrap_force_force ne mn mx short]
    by (simp add: pts_wrap_force_def sample_def df_wrap_force_dtype sub_cells_def
        wrap64_max wrap64_def)
qed

lemma df_wrap_time_wf: "wf_df df_wrap_time"
  by (simp add: wf_df_def df_wrap_time_def len_df_def int64_value_def)

lemma df_wrap_time_time:
  "col df_wrap_time ''time'' = Inr [- 9223372036854775808, 9223372036854775807]"
  by (simp add: col_def selection_def df_wrap_time_def)

lemma df_wrap_time_force: "col df_wrap_time ''force'' = Inr [1, 0]"
  by (simp add: col_def selection_def df_wrap_time_def)

lemma df_wrap_time_dtype:
  "dtype_of df_wrap_time ''time'' = Int64" "dtype_of df_wrap_time ''force'' = Int64"
  by (simp_all add: dtype_of_def selection_def df_wrap_time_def)

lemma df_wrap_time_process:
  "process_force_data [] df_wrap_time = Inr ([], df_wrap_time, Some pts_wrap_time)"
proof -
  have ne: "[1, 0::real] \<noteq> []" by simp
  have short: "length [1, 0::real] \<le> 60" by simp
  have mn: "idxmin [1, 0] = Inr 1" by (simp add: idxmin_def)
  have mx: "idxmax [1, 0] = Inr 0" by (simp add: idxmax_def)
  show ?thesis
    unfolding process_force_data_short[OF df_wrap_time_wf df_wrap_time_time
        df_wrap_time_force ne mn mx short]
    by (simp add: pts_wrap_time_def sample_def df_wrap_time_dtype sub_cells_def
        wrap64_max wrap64_min wrap64_def)
qed

text \<open>A repeated name makes \<^verbatim>\<open>process_force_data\<close> raise.\<close>

lemma df_two_times_raises: "process_force_data s df_two_times = Inl ValueError"
  by (simp add: process_force_data_def columns_def repeated_def selection_def
      df_two_times_def)

lemma df_two_forces_raises: "process_force_data s df_two_forces = Inl TypeError"
  by (simp add: process_force_data_def columns_def repeated_def selection_def
      df_two_forces_def len_df_def)

section \<open>The claims\<close>

text \<open>
  Claim C1. When the sub-series from B's index \<open>b\<close> to the end is longer than twice the
  window size \<open>w\<close>, and \<open>j\<close> is the first position, among those of the sub-series
  that leave out its first and last \<open>w\<close> samples, whose sample standard deviation of
  force over the positions \<open>j - w, ..., j + w\<close> is strictly below the threshold, then
  \<^verbatim>\<open>find_balance_point\<close> returns the sample at \<open>j\<close> as point C.
\<close>

theorem balance_point_first_candidate:
  assumes wf: "wf_df df" and t: "col df ''time'' = Inr ts" and f: "col df ''force'' = Inr fs"
    and long: "2 * w < length (drop b fs)"
    and cand: "b + w \<le> j" "j + w < length fs"
    and below: "std_lt (std (window fs j w)) thr"
    and first: "\<forall>k. b + w \<le> k \<and> k < j \<longrightarrow> \<not> std_lt (std (window fs k w)) thr"
  shows "find_balance_point df b w thr = Inr (sample ts fs j)"
proof -
  let ?P = "\<lambda>i. std_lt (std (window fs (b + i) w)) thr"
  have "\<forall>k. w \<le> k \<and> k < j - b \<longrightarrow> \<not> ?P k" using first cand by auto
  moreover have "?P (j - b)" using below cand by simp
  moreover have "w \<le> j - b" "j - b < (length fs - b) - w" using cand by auto
  ultimately have "find ?P [w ..< (length fs - b) - w] = Some (j - b)"
    by (intro find_upt_first) auto
  then show ?thesis
    using find_balance_point_char[OF wf t f, of b w thr] cand
    by simp
qed

theorem balance_point_first_candidate_witness:
  "find_balance_point df0 2 2 1 = Inr \<lparr>time = 5, force = 5\<rparr>"
proof -
  have first: "\<forall>k. 2 + 2 \<le> k \<and> k < 5
      \<longrightarrow> \<not> std_lt (std (window [0, 3, 10, 5, 5, 5, 5, 5, 5] k 2)) 1"
  proof (intro allI impI)
    fix k :: nat assume "2 + 2 \<le> k \<and> k < 5"
    then have "k = 4" by simp
    then show "\<not> std_lt (std (window [0, 3, 10, 5, 5, 5, 5, 5, 5] k 2)) 1"
      using std_step df0_window4 by simp
  qed
  have "find_balance_point df0 2 2 1
      = Inr (sample [0, 1, 2, 3, 4, 5, 6, 7, 8] [0, 3, 10, 5, 5, 5, 5, 5, 5] 5)"
    by (rule balance_point_first_candidate[OF df0_wf df0_time df0_force _ _ _ _ first])
      (simp_all add: df0_window5 std_flat)
  then show ?thesis by (simp add: sample_def)
qed

text \<open>
  Claim C2. For a non-empty series, point A is the sample at the smallest position that
  holds the minimum force, point B the sample at the smallest position that holds the
  maximum force, and every force of the series lies between the forces of A and B.
  The series is the one \<^verbatim>\<open>'time'\<close> and the one \<^verbatim>\<open>'force'\<close> column of the frame.
\<close>

theorem extrema_first_index:
  assumes wf: "wf_df df" and t: "col df ''time'' = Inr ts" and f: "col df ''force'' = Inr fs"
    and ne: "fs \<noteq> []"
  shows "\<exists>pts ia ib. process_force_data s df = Inr (s, df, Some pts)
     \<and> ia < length fs \<and> point_a pts = sample ts fs ia \<and> fs ! ia = Min (set fs)
     \<and> (\<forall>j<length fs. fs ! j = Min (set fs) \<longrightarrow> ia \<le> j)
     \<and> ib < length fs \<and> point_b pts = sample ts fs ib \<and> fs ! ib = Max (set fs)
     \<and> (\<forall>j<length fs. fs ! j = Max (set fs) \<longrightarrow> ib \<le> j)
     \<and> (\<forall>x\<in>set fs. force (point_a pts) \<le> x \<and> x \<le> force (point_b pts))"
proof -
  from process_force_data_char[OF wf t f ne, of s]
  obtain ia ib ic st where mn: "first_min fs ia" and mx: "first_max fs ib"
    and p: "process_force_data s df = Inr (s, df, Some
          \<lparr>point_a = sample ts fs ia, point_b = sample ts fs ib, point_c = sample ts fs ic,
           stats = st\<rparr>)"
    by blast
  have la: "ia < length fs" and lb: "ib < length fs"
    using mn mx by (simp_all add: first_min_def first_max_def)
  have bounds: "\<forall>x\<in>set fs. fs ! ia \<le> x \<and> x \<le> fs ! ib"
    using mn mx by (auto simp: first_min_def first_max_def in_set_conv_nth)
  show ?thesis
    using p la lb first_min_Min[OF mn] first_max_Max[OF mx] bounds
    by (intro exI[of _ "\<lparr>point_a = sample ts fs ia, point_b = sample ts fs ib,
          point_c = sample ts fs ic, stats = st\<rparr>"] exI[of _ ia] exI[of _ ib])
      (simp add: sample_def)
qed

theorem extrema_first_index_witness:
  "process_force_data [] df0 = Inr ([], df0, Some pts0)
   \<and> force (point_a pts0) \<le> 3 \<and> 3 \<le> force (point_b pts0)"
proof -
  have ne: "[0, 3, 10, 5, 5, 5, 5, 5, 5::real] \<noteq> []" by simp
  from extrema_first_index[OF df0_wf df0_time df0_force ne, of "[]"]
  obtain pts where p: "process_force_data [] df0 = Inr ([], df0, Some pts)"
    and b: "\<forall>x\<in>set [0, 3, 10, 5, 5, 5, 5, 5, 5]. force (point_a pts) \<le> x \<and> x \<le> force (point_b pts)"
    by blast
  from p df0_process have e: "pts = pts0" by simp
  from b have "force (point_a pts) \<le> 3 \<and> 3 \<le> force (point_b pts)" by simp
  with p e show ?thesis by simp
qed

text \<open>
  Claim C3. For a non-empty series, when no candidate position has a windowed standard
  deviation below the threshold, or the sub-series from B's index on has at most twice
  the window size samples, \<^verbatim>\<open>find_balance_point\<close> returns the last sample of the whole
  series.
\<close>

theorem balance_point_fallback:
  assumes wf: "wf_df df" and t: "col df ''time'' = Inr ts" and f: "col df ''force'' = Inr fs"
    and ne: "fs \<noteq> []"
    and none: "(\<forall>j. b + w \<le> j \<and> j + w < length fs \<longrightarrow> \<not> std_lt (std (window fs j w)) thr)
       \<or> length (drop b fs) \<le> 2 * w"
  shows "find_balance_point df b w thr = Inr (sample ts fs (length fs - 1))"
proof -
  let ?P = "\<lambda>i. std_lt (std (window fs (b + i) w)) thr"
  have "\<forall>i\<in>set [w ..< (length fs - b) - w]. \<not> ?P i"
    using none by auto
  then have "find ?P [w ..< (length fs - b) - w] = None"
    unfolding find_None_iff by blast
  then show ?thesis
    using find_balance_point_char[OF wf t f, of b w thr] ne
    by simp
qed

theorem balance_point_fallback_witness:
  "find_balance_point df0 2 4 1 = Inr \<lparr>time = 8, force = 5\<rparr>"
proof -
  have "find_balance_point df0 2 4 1
      = Inr (sample [0, 1, 2, 3, 4, 5, 6, 7, 8] [0, 3, 10, 5, 5, 5, 5, 5, 5]
               (length [0, 3, 10, 5, 5, 5, 5, 5, 5::real] - 1))"
    by (rule balance_point_fallback[OF df0_wf df0_time df0_force]) simp_all
  then show ?thesis by (simp add: sample_def)
qed

text \<open>
  Claim C4 says that the function returns an error that names the missing roles. What it
  returns in place of the points is \<open>None\<close>, the same value whether the force or the
  time column is missing.
\<close>

theorem missing_role_not_returned_counterexample:
  "map_sum id (snd \<circ> snd) (process_force_data [] df_missing_force) = Inr None
   \<and> map_sum id (snd \<circ> snd) (process_force_data [] df_missing_time) = Inr None
   \<and> missing_columns df_missing_force = [''force'']
   \<and> missing_columns df_missing_time = [''time'']"
  by (simp add: df_missing_force_process df_missing_time_process missing_columns_def
      df_missing_force_columns df_missing_time_columns)

text \<open>
  Claim C4, amended. When the \<^verbatim>\<open>'time'\<close> or the \<^verbatim>\<open>'force'\<close> column is absent,
  \<^verbatim>\<open>process_force_data\<close> does not raise and returns the frame with \<open>None\<close> in place
  of the points, so that none of A, B, C is computed. The missing roles are named in the
  warnings it shows, not in what it returns: it shows as many warnings as roles are
  missing, and a warning that holds the quoted name of a role is among them exactly
  when that role is missing.
\<close>

theorem missing_columns_no_points:
  assumes "''time'' \<notin> set (columns df) \<or> ''force'' \<notin> set (columns df)"
  shows "\<exists>new. process_force_data s df = Inr (s @ new, df, None)
     \<and> length new = length (missing_columns df)
     \<and> ((\<exists>m\<in>set new. occurs_in (quoted ''time'') m) \<longleftrightarrow> ''time'' \<notin> set (columns df))
     \<and> ((\<exists>m\<in>set new. occurs_in (quoted ''force'') m) \<longleftrightarrow> ''force'' \<notin> set (columns df))"
proof -
  let ?new = "(if ''time'' \<in> set (columns df) then [] else [time_warning])
       @ (if ''force'' \<in> set (columns df) then [] else [force_warning])"
  have "process_force_data s df = Inr (s @ ?new, df, None)"
    unfolding process_force_data_def using assms by (auto simp: fold_warn_missing)
  moreover have "length ?new = length (missing_columns df)"
    by (simp add: missing_columns_def)
  moreover have "(\<exists>m\<in>set ?new. occurs_in (quoted ''time'') m) \<longleftrightarrow> ''time'' \<notin> set (columns df)"
    using time_warning_names force_warning_names by auto
  moreover have "(\<exists>m\<in>set ?new. occurs_in (quoted ''force'') m) \<longleftrightarrow> ''force'' \<notin> set (columns df)"
    using time_warning_names force_warning_names by auto
  ultimately show ?thesis by blast
qed

theorem missing_columns_no_points_witness:
  "process_force_data [] df_missing_force = Inr ([force_warning], df_missing_force, None)
   \<and> occurs_in (quoted ''force'') force_warning"
proof -
  have h: "''time'' \<notin> set (columns df_missing_force) \<or> ''force'' \<notin> set (columns df_missing_force)"
    by (simp add: df_missing_force_columns)
  from missing_columns_no_points[OF h, of "[]"] obtain new where
    p: "process_force_data [] df_missing_force = Inr ([] @ new, df_missing_force, None)"
    and fc: "(\<exists>m\<in>set new. occurs_in (quoted ''force'') m) \<longleftrightarrow>
        ''force'' \<notin> set (columns df_missing_force)"
    by blast
  from p df_missing_force_process have n: "new = [force_warning]" by simp
  from fc have "occurs_in (quoted ''force'') force_warning"
    unfolding n by (simp add: df_missing_force_columns)
  with p n show ?thesis by simp
qed

text \<open>
  Claim C5 says that the returned RFD is the quotient of the force and time differences
  of B and A for every non-empty series. On a frame of integer columns whose forces span
  the 64-bit range the force difference wraps around: the times of A and B differ, the
  quotient is \<open>2^64 - 1\<close>, and the returned RFD is \<open>-1\<close>.
\<close>

theorem rfd_wraps_counterexample:
  "process_force_data [] df_wrap_force = Inr ([], df_wrap_force, Some pts_wrap_force)
   \<and> time (point_b pts_wrap_force) \<noteq> time (point_a pts_wrap_force)
   \<and> (force (point_b pts_wrap_force) - force (point_a pts_wrap_force))
        / (time (point_b pts_wrap_force) - time (point_a pts_wrap_force))
      = 18446744073709551615
   \<and> RFD (stats pts_wrap_force) = - 1"
  by (simp add: df_wrap_force_process pts_wrap_force_def)

text \<open>
  Claim C5, amended. For a non-empty series whose time and force columns are float64, or
  int64 with all differences of two values in the 64-bit range, the returned RFD is the
  force difference of B and A divided by their time difference when the times differ,
  and 0 when they are equal.
\<close>

theorem rfd_formula:
  assumes wf: "wf_df df" and t: "col df ''time'' = Inr ts" and f: "col df ''force'' = Inr fs"
    and ne: "fs \<noteq> []"
    and et: "exact_sub (dtype_of df ''time'') ts"
    and ef: "exact_sub (dtype_of df ''force'') fs"
  shows "\<exists>pts. process_force_data s df = Inr (s, df, Some pts)
     \<and> RFD (stats pts) =
         (if time (point_b pts) \<noteq> time (point_a pts)
          then (force (point_b pts) - force (point_a pts))
                 / (time (point_b pts) - time (point_a pts))
          else 0)"
proof -
  from process_force_data_char[OF wf t f ne, of s]
  obtain ia ib ic st where mn: "first_min fs ia" and mx: "first_max fs ib"
    and p: "process_force_data s df = Inr (s, df, Some
          \<lparr>point_a = sample ts fs ia, point_b = sample ts fs ib, point_c = sample ts fs ic,
           stats = st\<rparr>)"
    and r: "RFD st = (if sub_cells (dtype_of df ''time'') (ts ! ib) (ts ! ia) \<noteq> 0
                 then sub_cells (dtype_of df ''force'') (fs ! ib) (fs ! ia)
                        / sub_cells (dtype_of df ''time'') (ts ! ib) (ts ! ia)
                 else 0)"
    by blast
  have len: "length ts = length fs"
    using wf t f by (simp add: wf_col_length)
  have la: "ia < length fs" and lb: "ib < length fs"
    using mn mx by (simp_all add: first_min_def first_max_def)
  have dt: "sub_cells (dtype_of df ''time'') (ts ! ib) (ts ! ia) = ts ! ib - ts ! ia"
    using la lb len by (intro sub_cells_exact[OF wf t et]) simp_all
  have df: "sub_cells (dtype_of df ''force'') (fs ! ib) (fs ! ia) = fs ! ib - fs ! ia"
    using la lb by (intro sub_cells_exact[OF wf f ef]) simp_all
  show ?thesis unfolding p using r by (simp add: sample_def dt df)
qed

theorem rfd_formula_witness:
  "process_force_data [] df0 = Inr ([], df0, Some pts0)
   \<and> RFD (stats pts0) = (10 - 0) / (2 - 0)"
proof -
  have ne: "[0, 3, 10, 5, 5, 5, 5, 5, 5::real] \<noteq> []" by simp
  have et: "exact_sub (dtype_of df0 ''time'') [0, 1, 2, 3, 4, 5, 6, 7, 8]"
    by (simp add: df0_dtype exact_sub_def)
  have ef: "exact_sub (dtype_of df0 ''force'') [0, 3, 10, 5, 5, 5, 5, 5, 5]"
    by (simp add: df0_dtype exact_sub_def)
  from rfd_formula[OF df0_wf df0_time df0_force ne et ef, of "[]"]
  obtain pts where p: "process_force_data [] df0 = Inr ([], df0, Some pts)"
    and r: "RFD (stats pts) =
         (if time (point_b pts) \<noteq> time (point_a pts)
          then (force (point_b pts) - force (point_a pts))
                 / (time (point_b pts) - time (point_a pts))
          else 0)"
    by blast
  from p df0_process have e: "pts = pts0" by simp
  from r have "RFD (stats pts0) = (10 - 0) / (2 - 0)" unfolding e by (simp add: pts0_def)
  with p e show ?thesis by simp
qed

text \<open>
  Claim C6 says that the recovery time is not negative for every series whose times do
  not decrease. On a frame whose integer times span the 64-bit range and whose peak is
  the first sample, the times are sorted, C is the last sample, and the time difference
  of C and B wraps around to \<open>-1\<close>.
\<close>

theorem recovery_time_wraps_counterexample:
  "col df_wrap_time ''time'' = Inr [- 9223372036854775808, 9223372036854775807]
   \<and> sorted [- 9223372036854775808, 9223372036854775807 :: real]
   \<and> process_force_data [] df_wrap_time = Inr ([], df_wrap_time, Some pts_wrap_time)
   \<and> recovery_time (stats pts_wrap_time) < 0"
  by (simp add: df_wrap_time_time df_wrap_time_process pts_wrap_time_def)

text \<open>
  Claim C6, amended. Point C is a sample at a position at or after B's index, whatever
  the window size and the threshold, the fallback to the last sample included; so in the
  result of \<^verbatim>\<open>process_force_data\<close> the recovery time is not negative when the times of
  the series do not decrease and the time column is float64, or int64 with all
  differences of two values in the 64-bit range.
\<close>

theorem balance_point_after_peak:
  assumes wf: "wf_df df" and t: "col df ''time'' = Inr ts" and f: "col df ''force'' = Inr fs"
    and ne: "fs \<noteq> []"
  shows "(\<forall>b w thr. b < length fs \<longrightarrow>
            (\<exists>k. b \<le> k \<and> k < length fs \<and> find_balance_point df b w thr = Inr (sample ts fs k)))
     \<and> (\<exists>pts ib ic. process_force_data s df = Inr (s, df, Some pts)
          \<and> idxmax fs = Inr ib \<and> point_b pts = sample ts fs ib
          \<and> point_c pts = sample ts fs ic \<and> ib \<le> ic \<and> ic < length fs
          \<and> (exact_sub (dtype_of df ''time'') ts \<and> sorted ts
               \<longrightarrow> 0 \<le> recovery_time (stats pts)))"
proof
  show "\<forall>b w thr. b < length fs \<longrightarrow>
      (\<exists>k. b \<le> k \<and> k < length fs \<and> find_balance_point df b w thr = Inr (sample ts fs k))"
    using find_balance_point_index[OF wf t f] by blast
next
  from process_force_data_char[OF wf t f ne, of s]
  obtain ia ib ic st where ib: "idxmax fs = Inr ib" and le: "ib \<le> ic" and lc: "ic < length fs"
    and p: "process_force_data s df = Inr (s, df, Some
          \<lparr>point_a = sample ts fs ia, point_b = sample ts fs ib, point_c = sample ts fs ic,
           stats = st\<rparr>)"
    and r: "recovery_time st = sub_cells (dtype_of df ''time'') (ts ! ic) (ts ! ib)"
    by blast
  have len: "length ts = length fs"
    using wf t f by (simp add: wf_col_length)
  have mono: "sorted ts \<longrightarrow> ts ! ib \<le> ts ! ic"
    using le lc len by (simp add: sorted_nth_mono)
  have ex: "exact_sub (dtype_of df ''time'') ts \<longrightarrow>
      sub_cells (dtype_of df ''time'') (ts ! ic) (ts ! ib) = ts ! ic - ts ! ib"
  proof
    assume et: "exact_sub (dtype_of df ''time'') ts"
    show "sub_cells (dtype_of df ''time'') (ts ! ic) (ts ! ib) = ts ! ic - ts ! ib"
      using le lc len by (intro sub_cells_exact[OF wf t et]) simp_all
  qed
  have "exact_sub (dtype_of df ''time'') ts \<and> sorted ts \<longrightarrow> 0 \<le> recovery_time st"
    using mono ex r by auto
  then show "\<exists>pts ib ic. process_force_data s df = Inr (s, df, Some pts)
          \<and> idxmax fs = Inr ib \<and> point_b pts = sample ts fs ib
          \<and> point_c pts = sample ts fs ic \<and> ib \<le> ic \<and> ic < length fs
          \<and> (exact_sub (dtype_of df ''time'') ts \<and> sorted ts
               \<longrightarrow> 0 \<le> recovery_time (stats pts))"
    unfolding p using ib le lc by auto
qed

theorem balance_point_after_peak_witness:
  "sorted [0, 1, 2, 3, 4, 5, 6, 7, 8::real]
   \<and> exact_sub (dtype_of df0 ''time'') [0, 1, 2, 3, 4, 5, 6, 7, 8]
   \<and> process_force_data [] df0 = Inr ([], df0, Some pts0)
   \<and> 0 \<le> recovery_time (stats pts0)
   \<and> (\<exists>k. 2 \<le> k \<and> k < length [0, 3, 10, 5, 5, 5, 5, 5, 5::real]
        \<and> find_balance_point df0 2 2 1
          = Inr (sample [0, 1, 2, 3, 4, 5, 6, 7, 8] [0, 3, 10, 5, 5, 5, 5, 5, 5] k))"
proof -
  have ne: "[0, 3, 10, 5, 5, 5, 5, 5, 5::real] \<noteq> []" by simp
  have srt: "sorted [0, 1, 2, 3, 4, 5, 6, 7, 8::real]" by simp
  have et: "exact_sub (dtype_of df0 ''time'') [0, 1, 2, 3, 4, 5, 6, 7, 8]"
    by (simp add: df0_dtype exact_sub_def)
  note c6 = balance_point_after_peak[OF df0_wf df0_time df0_force ne, of "[]"]
  from c6 obtain pts where p: "process_force_data [] df0 = Inr ([], df0, Some pts)"
    and r: "exact_sub (dtype_of df0 ''time'') [0, 1, 2, 3, 4, 5, 6, 7, 8]
        \<and> sorted [0, 1, 2, 3, 4, 5, 6, 7, 8::real] \<longrightarrow> 0 \<le> recovery_time (stats pts)"
    by blast
  from p df0_process have e: "pts = pts0" by simp
  from c6 have k: "\<exists>k. 2 \<le> k \<and> k < length [0, 3, 10, 5, 5, 5, 5, 5, 5::real]
      \<and> find_balance_point df0 2 2 1
          = Inr (sample [0, 1, 2, 3, 4, 5, 6, 7, 8] [0, 3, 10, 5, 5, 5, 5, 5, 5] k)"
    by simp
  from srt et r e have "0 \<le> recovery_time (stats pts0)" by blast
  with srt et p e k show ?thesis by blast
qed

text \<open>
  Claim C7 says that for some series and some candidate the window of the scan reaches
  back before B's index. No series and no candidate do that: the lower end of the window
  of every candidate is at or after B's index.
\<close>

theorem window_before_peak_counterexample:
  "\<not> (\<exists>df b w i cur. i \<in> set (candidate_range (iloc_from_index df b) w)
        \<and> index_at (iloc_from_index df b) i = Inr cur \<and> window_lo cur w < int b)"
proof
  assume "\<exists>df b w i cur. i \<in> set (candidate_range (iloc_from_index df b) w)
        \<and> index_at (iloc_from_index df b) i = Inr cur \<and> window_lo cur w < int b"
  then obtain df b w i cur where c: "i \<in> set (candidate_range (iloc_from_index df b) w)"
    and a: "index_at (iloc_from_index df b) i = Inr cur" and l: "window_lo cur w < int b"
    by blast
  from candidate_at[OF c] a have "cur = b + i" "w \<le> i" by simp_all
  with l show False by (simp add: window_lo_def)
qed

text \<open>
  Claim C7, amended. For every series and every candidate of the scan, the window holds
  no sample before B's index: the candidate at position \<open>i\<close> of the sub-series has the
  label \<open>b + i\<close>, its window starts at or after \<open>b\<close>, and the forces read through the
  labels of the whole series are the forces at the positions \<open>i - w, ..., i + w\<close> of the
  sub-series that starts at B.
\<close>

theorem window_inside_post_peak:
  assumes wf: "wf_df df" and f: "col df ''force'' = Inr fs"
    and c: "i \<in> set (candidate_range (iloc_from_index df b) w)"
  shows "index_at (iloc_from_index df b) i = Inr (b + i)
     \<and> int b \<le> window_lo (b + i) w
     \<and> loc_slice df (window_lo (b + i) w) (window_hi (b + i) w) ''force''
         = Inr (slice_closed (drop b fs) (int i - int w) (int i + int w))"
proof -
  have lf: "length fs = len_df df" using wf f by (simp add: wf_col_length)
  from candidate_at[OF c] have i: "index_at (iloc_from_index df b) i = Inr (b + i)"
    "w \<le> i" "b + i + w < len_df df" by simp_all
  have lo: "nat (window_lo (b + i) w) = b + (i - w)" using i by (simp add: window_lo_def)
  have hi: "nat (window_hi (b + i) w + 1) = Suc (b + i + w)"
    by (simp add: window_hi_def nat_add_distrib)
  have lo': "nat (int i - int w) = i - w" using i by simp
  have hi': "nat (int i + int w + 1) = Suc (i + w)" by (simp add: nat_add_distrib)
  have "slice_closed fs (window_lo (b + i) w) (window_hi (b + i) w)
      = slice_closed (drop b fs) (int i - int w) (int i + int w)"
    unfolding slice_closed_def lo hi lo' hi' using i by (simp add: add.commute)
  then show ?thesis using i f by (simp add: loc_slice_def bnd_def window_lo_def)
qed

theorem window_inside_post_peak_witness:
  "index_at (iloc_from_index df0 2) 3 = Inr 5
     \<and> int 2 \<le> window_lo 5 2
     \<and> loc_slice df0 (window_lo 5 2) (window_hi 5 2) ''force'' = Inr [5, 5, 5, 5, 5]"
proof -
  have h: "3 \<in> set (candidate_range (iloc_from_index df0 2) 2)" unfolding df0_cands by simp
  have s: "slice_closed (drop 2 [0, 3, 10, 5, 5, 5, 5, 5, 5::real]) (int 3 - int 2) (int 3 + int 2)
      = [5, 5, 5, 5, 5]"
    by (simp add: slice_closed_def eval_nat_numeral)
  show ?thesis using window_inside_post_peak[OF df0_wf df0_force h] s by simp
qed

text \<open>
  Claim C9. For every value \<open>i\<close> of the loop of \<^verbatim>\<open>find_balance_point\<close>, the lookup of
  the candidate's label succeeds, and the window from \<open>current_idx - window_size\<close> to
  \<open>current_idx + window_size\<close> lies between B's index and the last index of the series;
  the window of the first candidate starts at B's index.
\<close>

theorem window_within_bounds:
  assumes "i \<in> set (candidate_range (iloc_from_index df b) w)"
  shows "\<exists>cur. index_at (iloc_from_index df b) i = Inr cur
     \<and> int b \<le> window_lo cur w \<and> window_hi cur w \<le> int (len_df df) - 1
     \<and> (i = w \<longrightarrow> window_lo cur w = int b)"
  using candidate_at[OF assms] by (auto simp: window_lo_def window_hi_def)

theorem window_within_bounds_witness:
  "2 \<in> set (candidate_range (iloc_from_index df0 2) 2)
   \<and> (\<exists>cur. index_at (iloc_from_index df0 2) 2 = Inr cur
     \<and> int 2 \<le> window_lo cur 2 \<and> window_hi cur 2 \<le> int (len_df df0) - 1
     \<and> window_lo cur 2 = int 2)"
proof -
  have h: "2 \<in> set (candidate_range (iloc_from_index df0 2) 2)" unfolding df0_cands by simp
  show ?thesis using h window_within_bounds[OF h] by blast
qed



end
